theory Spec2Isabelle
  imports Main
begin

section \<open>Data model\<close>

text \<open>
  Instants (\<open>time.Time\<close>) and durations (\<open>time.Duration\<close>) are integers on one
  linear scale; \<open>t.Add(-d)\<close> is \<open>t - d\<close>. A timestamp column holds the instant that
  was written; what the SQL store makes of the driver's text for it when it reads a row
  back or compares two of them is said where it happens.
\<close>

type_synonym time = int
type_synonym duration = int

definition StatusSolved :: string where "StatusSolved = ''Solved''"
definition StatusNeededHint :: string where "StatusNeededHint = ''Needed Hint''"
definition StatusStuck :: string where "StatusStuck = ''Stuck''"

definition DifficultyEasy :: string where "DifficultyEasy = ''Easy''"
definition DifficultyMedium :: string where "DifficultyMedium = ''Medium''"
definition DifficultyHard :: string where "DifficultyHard = ''Hard''"

text \<open>
  \<open>ProblemEntry\<close> is the struct both store implementations exchange with their
  callers. Its \<open>ID\<close> is an \<open>int\<close> in the SQL store (\<open>models.go\<close>) and a
  \<open>uint\<close> in the ORM repository, hence the type parameter.
\<close>

record 'id ProblemEntry =
  ID :: 'id
  UserID :: string
  ProblemName :: string
  Link :: string
  Difficulty :: string
  Category :: string
  Status :: string
  SolvedAt :: time
  LastReviewedAt :: "time option"
  ReviewCount :: int
  Notes :: string
  Tags :: "string list"

text \<open>
  Go errors are strings built with \<open>errors.New\<close> and \<open>fmt.Errorf\<close>. The model
  keeps the three kinds the callers can tell apart: a failed validation (with its
  message), \<open>problem not found: <id>\<close>, and a failed statement of the store.
\<close>

datatype 'id error =
    ValidationError string
  | NotFoundError 'id
  | StoreTransactionError string

subsection \<open>Validation\<close>

text \<open>\<open>ValidateProblemEntry\<close>: \<open>None\<close> is Go's \<open>nil\<close>; the checks run in the source's order.\<close>

definition ValidateProblemEntry :: "'id ProblemEntry \<Rightarrow> 'id error option" where
  "ValidateProblemEntry p =
     (if UserID p = [] then Some (ValidationError ''user ID is required'')
      else if ProblemName p = [] then Some (ValidationError ''problem name is required'')
      else if Difficulty p \<noteq> DifficultyEasy \<and> Difficulty p \<noteq> DifficultyMedium
              \<and> Difficulty p \<noteq> DifficultyHard
        then Some (ValidationError (''invalid difficulty: '' @ Difficulty p))
      else if Status p \<noteq> StatusSolved \<and> Status p \<noteq> StatusNeededHint
              \<and> Status p \<noteq> StatusStuck
        then Some (ValidationError (''invalid status: '' @ Status p))
      else if Category p = [] then Some (ValidationError ''category is required'')
      else None)"

subsection \<open>strings.TrimSpace\<close>

text \<open>
  Strings are byte lists in UTF-8. \<open>TrimSpace\<close> drops the leading and the trailing
  white space runes: the six ASCII ones (tab, line feed, vertical tab, form feed,
  carriage return, space), U+0085 and U+00A0 (two bytes each) and U+1680,
  U+2000 to U+200A, U+2028, U+2029, U+202F, U+205F and U+3000 (three bytes each). At
  the end of the string the bytes are matched last byte first.
\<close>

definition asciiSpace :: "char \<Rightarrow> bool" where
  "asciiSpace c = (c = CHR 0x09 \<or> c = CHR 0x0A \<or> c = CHR 0x0B \<or> c = CHR 0x0C
                    \<or> c = CHR 0x0D \<or> c = CHR 0x20)"

definition space2 :: "char \<Rightarrow> char \<Rightarrow> bool" where
  "space2 c d = (c = CHR 0xC2 \<and> (d = CHR 0x85 \<or> d = CHR 0xA0))"

definition space3 :: "char \<Rightarrow> char \<Rightarrow> char \<Rightarrow> bool" where
  "space3 c d e =
     ((c = CHR 0xE1 \<and> d = CHR 0x9A \<and> e = CHR 0x80)
      \<or> (c = CHR 0xE2 \<and> d = CHR 0x80
           \<and> ((0x80 \<le> (of_char e :: nat) \<and> (of_char e :: nat) \<le> 0x8A)
                \<or> e = CHR 0xA8 \<or> e = CHR 0xA9 \<or> e = CHR 0xAF))
      \<or> (c = CHR 0xE2 \<and> d = CHR 0x81 \<and> e = CHR 0x9F)
      \<or> (c = CHR 0xE3 \<and> d = CHR 0x80 \<and> e = CHR 0x80))"

fun trimLeft :: "string \<Rightarrow> string" where
  "trimLeft (c # d # e # rest) =
     (if asciiSpace c then trimLeft (d # e # rest)
      else if space2 c d then trimLeft (e # rest)
      else if space3 c d e then trimLeft rest
      else c # d # e # rest)"
| "trimLeft [c, d] =
     (if asciiSpace c then trimLeft [d]
      else if space2 c d then []
      else [c, d])"
| "trimLeft [c] = (if asciiSpace c then [] else [c])"
| "trimLeft [] = []"

fun trimRightRev :: "string \<Rightarrow> string" where
  "trimRightRev (c # d # e # rest) =
     (if asciiSpace c then trimRightRev (d # e # rest)
      else if space2 d c then trimRightRev (e # rest)
      else if space3 e d c then trimRightRev rest
      else c # d # e # rest)"
| "trimRightRev [c, d] =
     (if asciiSpace c then trimRightRev [d]
      else if space2 d c then []
      else [c, d])"
| "trimRightRev [c] = (if asciiSpace c then [] else [c])"
| "trimRightRev [] = []"

definition TrimSpace :: "string \<Rightarrow> string" where
  "TrimSpace s = rev (trimRightRev (rev (trimLeft s)))"

subsection \<open>Transactions of the ORM\<close>

text \<open>
  The ORM's \<open>Transaction\<close> runs its body on the store; when the body returns an error
  every write of the body is rolled back, otherwise they are committed. The result
  pairs the store after the call with what the call returns.
\<close>

definition transaction ::
  "'s \<Rightarrow> ('s \<Rightarrow> 'e + ('s \<times> 'a)) \<Rightarrow> 's \<times> ('e + 'a)" where
  "transaction s body =
     (case body s of
        Inl e \<Rightarrow> (s, Inl e)
      | Inr (s', a) \<Rightarrow> (s', Inr a))"

section \<open>The SQL store (\<open>DB\<close>)\<close>

text \<open>
  The tables of \<open>migrateV1\<close>, each a list of rows in rowid order. \<open>problems.id\<close>
  and \<open>tags.id\<close> are \<open>AUTOINCREMENT\<close> keys: the sequence counters remember the
  largest key ever handed out. Of the constraints of the schema the engine enforces
  the unique ones: \<open>tags.name\<close> and the primary key \<open>(problem_id, tag_id)\<close> of
  \<open>problem_tags\<close>. The foreign keys of \<open>problem_tags\<close> are declared, but nothing in
  the repository switches their enforcement on (the DSN of \<open>config.yaml\<close> does not),
  so a link may name a missing problem and a delete does not cascade.
\<close>

record problem_row =
  row_id :: int
  row_user_id :: string
  row_problem_name :: string
  row_link :: string
  row_difficulty :: string
  row_category :: string
  row_status :: string
  row_solved_at :: time
  row_last_reviewed_at :: "time option"
  row_review_count :: int
  row_notes :: string

record tag_row =
  tag_id :: int
  tag_name :: string

record user_stats_row =
  us_user_id :: string
  us_total_solved :: int
  us_total_needed_hint :: int
  us_total_stuck :: int
  us_easy_count :: int
  us_medium_count :: int
  us_hard_count :: int
  us_last_active_at :: "time option"

record db_state =
  problems :: "problem_row list"
  tags :: "tag_row list"
  problem_tags :: "(int \<times> int) list"
  user_stats :: "user_stats_row list"
  problems_seq :: int
  tags_seq :: int

text \<open>
  The connection. \<open>Driver\<close> is the configured driver name (\<open>db.config.Driver\<close>),
  \<open>supports_returning\<close> tells whether the engine accepts a \<open>RETURNING\<close> clause. The
  other three fields say how the engine and the scheduler of the run time treat this
  connection:
  \<^item> \<open>tx_statements\<close>: \<open>Begin\<close> derives a context with a time-out, hands it to
    \<open>BeginTx\<close> and cancels it when it returns (\<open>defer cancel()\<close>). The library
    rolls a transaction back, in the background, once its context is cancelled; this
    many statements of the transaction still run before that has happened, every later
    one finds the transaction done.
  \<^item> \<open>rows_readable\<close>: \<open>QueryContext\<close> cancels the context of its query in the same
    way, and the library closes the rows of a query whose context is cancelled;
    \<open>rows_readable\<close> tells whether the caller's first read comes before that.
  \<^item> \<open>timestamp_le\<close>: how the engine orders two timestamps of a table, which it does
    on the texts the driver wrote for them.
\<close>

record DB =
  Driver :: string
  supports_returning :: bool
  tx_statements :: nat
  rows_readable :: bool
  timestamp_le :: "time \<Rightarrow> time \<Rightarrow> bool"

definition next_rowid :: "int \<Rightarrow> int list \<Rightarrow> int" where
  "next_rowid seq ids = fold max ids seq + 1"

subsection \<open>Transactions of the SQL store\<close>

text \<open>
  A transaction in progress: the number of statements it can still run, and the store
  as the transaction sees it. A statement maps that store to an error text, or to the
  store after it and a result.
\<close>

type_synonym tx = "nat \<times> db_state"
type_synonym 'a statement = "db_state \<Rightarrow> string + (db_state \<times> 'a)"

definition ErrTxDone :: string where
  "ErrTxDone = ''sql: transaction has already been committed or rolled back''"

text \<open>
  One statement on the transaction (\<open>tx.ExecContext\<close>, \<open>tx.QueryRowContext\<close>): refused
  with \<open>ErrTxDone\<close> when the transaction is done, run otherwise.
\<close>

definition exec :: "tx \<Rightarrow> 'a statement \<Rightarrow> tx \<times> (string + 'a)" where
  "exec t stmt =
     (case t of
        (0, st) \<Rightarrow> ((0, st), Inl ErrTxDone)
      | (Suc n, st) \<Rightarrow>
          (case stmt st of
             Inl e \<Rightarrow> ((n, st), Inl e)
           | Inr (st', a) \<Rightarrow> ((n, st'), Inr a)))"

text \<open>
  \<open>tx.Commit\<close> looks at the context of the transaction first; it is cancelled, so
  \<open>Commit\<close> returns \<open>ErrTxDone\<close> when the rollback has happened and the context's
  error otherwise.
\<close>

definition Commit :: "tx \<Rightarrow> string" where
  "Commit t = (case t of (0, st) \<Rightarrow> ErrTxDone | (Suc n, st) \<Rightarrow> ''context canceled'')"

text \<open>
  \<open>Begin\<close>, the body, \<open>Commit\<close> and the deferred \<open>Rollback\<close>. The body returns an
  error text or reaches \<open>Commit\<close>, whose error the caller wraps with \<open>prefix\<close>. Either
  way the transaction is rolled back: the store after the call is the store before it.
\<close>

definition sql_tx ::
  "DB \<Rightarrow> db_state \<Rightarrow> string \<Rightarrow> (tx \<Rightarrow> string + (tx \<times> 'a)) \<Rightarrow> db_state \<times> ('id error + 'a)" where
  "sql_tx db s prefix body =
     (case body (tx_statements db, s) of
        Inl e \<Rightarrow> (s, Inl (StoreTransactionError e))
      | Inr (t, a) \<Rightarrow> (s, Inl (StoreTransactionError (prefix @ Commit t))))"

subsection \<open>InsertProblem\<close>

text \<open>
  The \<open>INSERT INTO problems\<close> of \<open>InsertProblem\<close>: it names eight columns, so
  \<open>last_reviewed_at\<close> and \<open>review_count\<close> take their defaults. The sqlite3
  branch reads \<open>LastInsertId\<close>, the other branch needs \<open>RETURNING id\<close>.
\<close>

definition insert_problem :: "DB \<Rightarrow> int ProblemEntry \<Rightarrow> int statement" where
  "insert_problem db p st =
     (if Driver db = ''sqlite3'' \<or> supports_returning db then
        let problemID = next_rowid (problems_seq st) (map row_id (problems st));
            row = \<lparr> row_id = problemID, row_user_id = UserID p,
                    row_problem_name = ProblemName p, row_link = Link p,
                    row_difficulty = Difficulty p, row_category = Category p,
                    row_status = Status p, row_solved_at = SolvedAt p,
                    row_last_reviewed_at = None, row_review_count = 0,
                    row_notes = Notes p \<rparr>
        in Inr (st\<lparr> problems := problems st @ [row], problems_seq := problemID \<rparr>, problemID)
      else Inl ''near RETURNING: syntax error'')"

definition find_tag :: "db_state \<Rightarrow> string \<Rightarrow> int option" where
  "find_tag st name = map_option tag_id (find (\<lambda>t. tag_name t = name) (tags st))"

definition insert_tag :: "db_state \<Rightarrow> string \<Rightarrow> db_state \<times> int" where
  "insert_tag st name =
     (let tagID = next_rowid (tags_seq st) (map tag_id (tags st))
      in (st\<lparr> tags := tags st @ [\<lparr> tag_id = tagID, tag_name = name \<rparr>], tags_seq := tagID \<rparr>,
          tagID))"

text \<open>
  The three statements on \<open>tags\<close>: the upsert
  \<open>INSERT ... ON CONFLICT (name) DO UPDATE SET name=name RETURNING id\<close>, the
  \<open>SELECT id FROM tags WHERE name = ?\<close> (no row is \<open>None\<close>, Go's \<open>ErrNoRows\<close>), and
  the plain \<open>INSERT\<close>, which the unique name can refuse.
\<close>

definition upsert_returning :: "DB \<Rightarrow> string \<Rightarrow> int statement" where
  "upsert_returning db name st =
     (if supports_returning db then
        (case find_tag st name of
           Some tagID \<Rightarrow> Inr (st, tagID)
         | None \<Rightarrow> Inr (insert_tag st name))
      else Inl ''near RETURNING: syntax error'')"

definition select_tag :: "string \<Rightarrow> (int option) statement" where
  "select_tag name st = Inr (st, find_tag st name)"

definition insert_tag_plain :: "string \<Rightarrow> int statement" where
  "insert_tag_plain name st =
     (case find_tag st name of
        Some tagID \<Rightarrow> Inl ''UNIQUE constraint failed: tags.name''
      | None \<Rightarrow> Inr (insert_tag st name))"

text \<open>
  The tag upsert of the loop: the first statement; when it returns an error and the
  driver is sqlite3, the \<open>SELECT\<close> and, on \<open>ErrNoRows\<close>, the plain \<open>INSERT\<close>.
\<close>

definition upsert_tag :: "DB \<Rightarrow> tx \<Rightarrow> string \<Rightarrow> string + (tx \<times> int)" where
  "upsert_tag db t name =
     (case exec t (upsert_returning db name) of
        (t1, Inr tagID) \<Rightarrow> Inr (t1, tagID)
      | (t1, Inl e) \<Rightarrow>
          if Driver db = ''sqlite3'' then
            (case exec t1 (select_tag name) of
               (t2, Inr (Some tagID)) \<Rightarrow> Inr (t2, tagID)
             | (t2, Inr None) \<Rightarrow>
                 (case exec t2 (insert_tag_plain name) of
                    (t3, Inr tagID) \<Rightarrow> Inr (t3, tagID)
                  | (t3, Inl e3) \<Rightarrow> Inl (''failed to insert tag: '' @ e3))
             | (t2, Inl e2) \<Rightarrow> Inl (''failed to check tag existence: '' @ e2))
          else Inl (''failed to upsert tag: '' @ e))"

text \<open>
  \<open>INSERT INTO problem_tags (problem_id, tag_id)\<close>: refused when the pair is already
  linked (primary key).
\<close>

definition link_problem_tag :: "int \<Rightarrow> int \<Rightarrow> unit statement" where
  "link_problem_tag problemID tagID st =
     (if (problemID, tagID) \<in> set (problem_tags st)
      then Inl ''UNIQUE constraint failed: problem_tags.problem_id, problem_tags.tag_id''
      else Inr (st\<lparr> problem_tags := problem_tags st @ [(problemID, tagID)] \<rparr>, ()))"

text \<open>
  The loop over the submitted tags, written twice in the source with the same body
  (in \<open>InsertProblem\<close> and in \<open>updateProblemTags\<close>): trim, skip the empty ones,
  upsert the tag, link it.
\<close>

fun link_tags :: "DB \<Rightarrow> tx \<Rightarrow> int \<Rightarrow> string list \<Rightarrow> string + tx" where
  "link_tags db t problemID [] = Inr t"
| "link_tags db t problemID (tag # rest) =
     (let tag' = TrimSpace tag in
      if tag' = [] then link_tags db t problemID rest
      else
        (case upsert_tag db t tag' of
           Inl e \<Rightarrow> Inl e
         | Inr (t1, tagID) \<Rightarrow>
             (case exec t1 (link_problem_tag problemID tagID) of
                (t2, Inl e) \<Rightarrow> Inl (''failed to link problem to tag: '' @ e)
              | (t2, Inr u) \<Rightarrow> link_tags db t2 problemID rest)))"

text \<open>
  \<open>updateUserStats\<close>: ask whether the owner has a row, create it when it is missing,
  then one \<open>UPDATE user_stats SET ... WHERE user_id = ?\<close> whose \<open>SET\<close> list is
  assembled by the two \<open>switch\<close> statements (neither has a default case) and always
  ends with \<open>last_active_at\<close>.
\<close>

definition bump_status :: "string \<Rightarrow> user_stats_row \<Rightarrow> user_stats_row" where
  "bump_status st r =
     (if st = StatusSolved then r\<lparr> us_total_solved := us_total_solved r + 1 \<rparr>
      else if st = StatusNeededHint then r\<lparr> us_total_needed_hint := us_total_needed_hint r + 1 \<rparr>
      else if st = StatusStuck then r\<lparr> us_total_stuck := us_total_stuck r + 1 \<rparr>
      else r)"

definition bump_difficulty :: "string \<Rightarrow> user_stats_row \<Rightarrow> user_stats_row" where
  "bump_difficulty d r =
     (if d = DifficultyEasy then r\<lparr> us_easy_count := us_easy_count r + 1 \<rparr>
      else if d = DifficultyMedium then r\<lparr> us_medium_count := us_medium_count r + 1 \<rparr>
      else if d = DifficultyHard then r\<lparr> us_hard_count := us_hard_count r + 1 \<rparr>
      else r)"

definition new_user_stats :: "string \<Rightarrow> time option \<Rightarrow> user_stats_row" where
  "new_user_stats userID t =
     \<lparr> us_user_id = userID, us_total_solved = 0, us_total_needed_hint = 0,
       us_total_stuck = 0, us_easy_count = 0, us_medium_count = 0, us_hard_count = 0,
       us_last_active_at = t \<rparr>"

definition stats_set_clause :: "time \<Rightarrow> int ProblemEntry \<Rightarrow> user_stats_row \<Rightarrow> user_stats_row" where
  "stats_set_clause now p r =
     (bump_difficulty (Difficulty p) (bump_status (Status p) r))\<lparr> us_last_active_at := Some now \<rparr>"

definition stats_exist :: "string \<Rightarrow> bool statement" where
  "stats_exist userID st = Inr (st, list_ex (\<lambda>r. us_user_id r = userID) (user_stats st))"

definition create_stats :: "string \<Rightarrow> time \<Rightarrow> unit statement" where
  "create_stats userID now st =
     (if list_ex (\<lambda>r. us_user_id r = userID) (user_stats st)
      then Inl ''UNIQUE constraint failed: user_stats.user_id''
      else Inr (st\<lparr> user_stats := user_stats st @ [new_user_stats userID (Some now)] \<rparr>, ()))"

definition update_stats :: "time \<Rightarrow> int ProblemEntry \<Rightarrow> unit statement" where
  "update_stats now p st =
     Inr (st\<lparr> user_stats :=
               map (\<lambda>r. if us_user_id r = UserID p then stats_set_clause now p r else r)
                   (user_stats st) \<rparr>, ())"

definition updateUserStats :: "time \<Rightarrow> tx \<Rightarrow> int ProblemEntry \<Rightarrow> string + tx" where
  "updateUserStats now t p =
     (case exec t (stats_exist (UserID p)) of
        (t1, Inl e) \<Rightarrow> Inl (''failed to check user stats existence: '' @ e)
      | (t1, Inr exists) \<Rightarrow>
          (case (if \<not> exists then exec t1 (create_stats (UserID p) now) else (t1, Inr ())) of
             (t2, Inl e) \<Rightarrow> Inl (''failed to create user stats: '' @ e)
           | (t2, Inr u) \<Rightarrow>
               (case exec t2 (update_stats now p) of
                  (t3, Inl e) \<Rightarrow> Inl (''failed to update user stats: '' @ e)
                | (t3, Inr u') \<Rightarrow> Inr t3)))"

text \<open>
  \<open>InsertProblem\<close>. Validation comes before \<open>Begin\<close>. \<open>now\<close> is the reading of
  the clock inside \<open>updateUserStats\<close>. The body ends with \<open>p.ID = problemID\<close>, after
  a \<open>Commit\<close> without error.
\<close>

definition DB_InsertProblem ::
  "DB \<Rightarrow> time \<Rightarrow> db_state \<Rightarrow> int ProblemEntry \<Rightarrow> db_state \<times> (int error + int ProblemEntry)" where
  "DB_InsertProblem db now s p =
     (case ValidateProblemEntry p of
        Some err \<Rightarrow> (s, Inl err)
      | None \<Rightarrow>
          sql_tx db s ''failed to commit transaction: '' (\<lambda>t.
            case exec t (insert_problem db p) of
              (t1, Inl e) \<Rightarrow> Inl (''failed to insert problem: '' @ e)
            | (t1, Inr problemID) \<Rightarrow>
                (case link_tags db t1 problemID (Tags p) of
                   Inl e \<Rightarrow> Inl e
                 | Inr t2 \<Rightarrow>
                     (case updateUserStats now t2 p of
                        Inl e \<Rightarrow> Inl (''failed to update user stats: '' @ e)
                      | Inr t3 \<Rightarrow> Inr (t3, p\<lparr> ID := problemID \<rparr>)))))"

subsection \<open>Reading\<close>

text \<open>
  \<open>GetProblem\<close> reads its row with \<open>QueryRowContext\<close> of the embedded connection,
  which keeps the caller's context. No row is \<open>problem not found\<close>. A row is scanned;
  the driver hands a timestamp over as a \<open>time.Time\<close>, scanning that into a string
  gives RFC 3339 text (\<open>2006-01-02T15:04:05Z\<close>), and the \<open>time.Parse\<close> with the layout
  \<open>2006-01-02 15:04:05\<close> that follows fails on it.
\<close>

definition DB_GetProblem :: "db_state \<Rightarrow> int \<Rightarrow> int error + int ProblemEntry" where
  "DB_GetProblem s problemID =
     (case find (\<lambda>r. row_id r = problemID) (problems s) of
        None \<Rightarrow> Inl (NotFoundError problemID)
      | Some r \<Rightarrow> Inl (StoreTransactionError ''failed to parse solved_at time''))"

text \<open>
  \<open>GetUserStats\<close>: no row is \<open>nil, nil\<close>; a row whose \<open>last_active_at\<close> is set fails
  in the same \<open>time.Parse\<close>.
\<close>

definition DB_GetUserStats :: "db_state \<Rightarrow> string \<Rightarrow> int error + user_stats_row option" where
  "DB_GetUserStats s userID =
     (case find (\<lambda>r. us_user_id r = userID) (user_stats s) of
        None \<Rightarrow> Inr None
      | Some r \<Rightarrow>
          (case us_last_active_at r of
             None \<Rightarrow> Inr (Some r)
           | Some t \<Rightarrow> Inl (StoreTransactionError ''failed to parse last_active_at time'')))"

text \<open>
  \<open>ListProblemsForReview\<close>. The \<open>WHERE\<close> clause of the query selects the rows; the
  query runs through \<open>QueryContext\<close>. When the rows are closed before the first read,
  the loop is skipped and \<open>rows.Err()\<close> is the context's error. Otherwise the first
  selected row is scanned and its \<open>solved_at\<close> fails to parse, as in \<open>GetProblem\<close>;
  with no selected row the empty list is returned. \<open>ORDER BY solved_at ASC\<close> decides
  which row is read first, which changes nothing of the result.
\<close>

definition review_where :: "DB \<Rightarrow> string \<Rightarrow> time \<Rightarrow> problem_row \<Rightarrow> bool" where
  "review_where db userID cutoff r =
     (row_user_id r = userID \<and> timestamp_le db (row_solved_at r) cutoff
      \<and> (case row_last_reviewed_at r of None \<Rightarrow> True | Some t \<Rightarrow> timestamp_le db t cutoff))"

definition DB_ListProblemsForReview ::
  "DB \<Rightarrow> db_state \<Rightarrow> time \<Rightarrow> string \<Rightarrow> duration \<Rightarrow> int error + int ProblemEntry list" where
  "DB_ListProblemsForReview db s now userID lookbackPeriod =
     (let cutoff = now - lookbackPeriod;
          selected = filter (review_where db userID cutoff) (problems s)
      in if \<not> rows_readable db
         then Inl (StoreTransactionError
                     ''error iterating over review problems: context canceled'')
         else (case selected of
                 [] \<Rightarrow> Inr []
               | r # rest \<Rightarrow> Inl (StoreTransactionError ''failed to parse solved_at time'')))"

subsection \<open>Writing\<close>

text \<open>
  \<open>IncrementReviewCount\<close>: one \<open>UPDATE ... WHERE id = ?\<close> outside any explicit
  transaction, through \<open>ExecContext\<close>, whose context is cancelled only after the
  statement has run; the number of rows it touched is not looked at. \<open>review_count\<close>
  is an unbounded integer here; the engine's \<open>INTEGER\<close> leaves the integers at
  \<open>2^63 - 1\<close>.
\<close>

definition DB_IncrementReviewCount ::
  "time \<Rightarrow> db_state \<Rightarrow> int \<Rightarrow> db_state \<times> int error option" where
  "DB_IncrementReviewCount now s problemID =
     (s\<lparr> problems :=
           map (\<lambda>r. if row_id r = problemID
                    then r\<lparr> row_review_count := row_review_count r + 1,
                            row_last_reviewed_at := Some now \<rparr>
                    else r)
               (problems s) \<rparr>,
      None)"

text \<open>\<open>updateProblemTags\<close>: delete the problem's links, then the tag loop.\<close>

definition delete_links :: "int \<Rightarrow> unit statement" where
  "delete_links problemID st =
     Inr (st\<lparr> problem_tags := filter (\<lambda>(pid, tid). pid \<noteq> problemID) (problem_tags st) \<rparr>, ())"

definition updateProblemTags :: "DB \<Rightarrow> tx \<Rightarrow> int \<Rightarrow> string list \<Rightarrow> string + tx" where
  "updateProblemTags db t problemID tgs =
     (case exec t (delete_links problemID) of
        (t1, Inl e) \<Rightarrow> Inl (''failed to delete existing problem tags: '' @ e)
      | (t1, Inr u) \<Rightarrow> link_tags db t1 problemID tgs)"

text \<open>
  \<open>UpdateProblem\<close>: validation, then in one transaction the
  \<open>UPDATE problems SET ... WHERE id = ?\<close> and the tags. The result of the
  \<open>UPDATE\<close> is discarded, so a statement that matched no row is not an error.
\<close>

definition update_problem :: "int ProblemEntry \<Rightarrow> unit statement" where
  "update_problem p st =
     Inr (st\<lparr> problems :=
               map (\<lambda>r. if row_id r = ID p
                        then r\<lparr> row_user_id := UserID p,
                                row_problem_name := ProblemName p,
                                row_link := Link p,
                                row_difficulty := Difficulty p,
                                row_category := Category p,
                                row_status := Status p,
                                row_solved_at := SolvedAt p,
                                row_last_reviewed_at := LastReviewedAt p,
                                row_review_count := ReviewCount p,
                                row_notes := Notes p \<rparr>
                        else r)
                   (problems st) \<rparr>, ())"

definition DB_UpdateProblem ::
  "DB \<Rightarrow> db_state \<Rightarrow> int ProblemEntry \<Rightarrow> db_state \<times> (int error + unit)" where
  "DB_UpdateProblem db s p =
     (case ValidateProblemEntry p of
        Some err \<Rightarrow> (s, Inl err)
      | None \<Rightarrow>
          sql_tx db s ''failed to commit transaction: '' (\<lambda>t.
            case exec t (update_problem p) of
              (t1, Inl e) \<Rightarrow> Inl (''failed to update problem: '' @ e)
            | (t1, Inr u) \<Rightarrow>
                (case updateProblemTags db t1 (ID p) (Tags p) of
                   Inl e \<Rightarrow> Inl (''failed to update problem tags: '' @ e)
                 | Inr t2 \<Rightarrow> Inr (t2, ()))))"

text \<open>
  \<open>DeleteProblem\<close>: \<open>DELETE FROM problems WHERE id = ?\<close> in a transaction, then
  \<open>return tx.Commit()\<close>. The links of the problem are not touched.
\<close>

definition delete_problem :: "int \<Rightarrow> unit statement" where
  "delete_problem problemID st =
     Inr (st\<lparr> problems := filter (\<lambda>r. row_id r \<noteq> problemID) (problems st) \<rparr>, ())"

definition DB_DeleteProblem :: "DB \<Rightarrow> db_state \<Rightarrow> int \<Rightarrow> db_state \<times> (int error + unit)" where
  "DB_DeleteProblem db s problemID =
     sql_tx db s [] (\<lambda>t.
       case exec t (delete_problem problemID) of
         (t1, Inl e) \<Rightarrow> Inl (''failed to delete problem: '' @ e)
       | (t1, Inr u) \<Rightarrow> Inr (t1, ()))"

section \<open>The ORM repository (\<open>Repository\<close>)\<close>

text \<open>
  The models \<open>Problem\<close> and \<open>Tag\<close> and the join table \<open>problem_tags\<close> of their
  many-to-many association. \<open>Problem\<close> carries a soft-delete column, so every query
  through the model is restricted to rows that are not deleted: the model of the table
  holds exactly those rows. \<open>CreatedAt\<close> and \<open>UpdatedAt\<close> are read by nothing
  below and are left out. \<open>pTags\<close> is the association field: it is filled by
  \<open>Preload("Tags")\<close> and by \<open>ToProblem\<close>, the value kept in a table row is not used.
\<close>

record Tag =
  tID :: nat
  tName :: string

record Problem =
  pID :: nat
  pUserID :: string
  pProblemName :: string
  pLink :: string
  pDifficulty :: string
  pCategory :: string
  pStatus :: string
  pSolvedAt :: time
  pLastReviewedAt :: "time option"
  pReviewCount :: int
  pNotes :: string
  pTags :: "Tag list"

record repo_state =
  r_problems :: "Problem list"
  r_tags :: "Tag list"
  r_problem_tags :: "(nat \<times> nat) list"
  r_tags_seq :: nat

text \<open>
  \<open>ToProblem\<close>: every submitted tag is trimmed and the empty ones are dropped; the
  \<open>Tag\<close> values have no key yet.
\<close>

definition ToProblem :: "nat ProblemEntry \<Rightarrow> Problem" where
  "ToProblem p =
     \<lparr> pID = ID p, pUserID = UserID p, pProblemName = ProblemName p, pLink = Link p,
       pDifficulty = Difficulty p, pCategory = Category p, pStatus = Status p,
       pSolvedAt = SolvedAt p, pLastReviewedAt = LastReviewedAt p,
       pReviewCount = ReviewCount p, pNotes = Notes p,
       pTags = map (\<lambda>tagName. \<lparr> tID = 0, tName = tagName \<rparr>)
                   (filter (\<lambda>tagName. tagName \<noteq> []) (map TrimSpace (Tags p))) \<rparr>"

definition FromProblem :: "Problem \<Rightarrow> nat ProblemEntry" where
  "FromProblem p =
     \<lparr> ID = pID p, UserID = pUserID p, ProblemName = pProblemName p, Link = pLink p,
       Difficulty = pDifficulty p, Category = pCategory p, Status = pStatus p,
       SolvedAt = pSolvedAt p, LastReviewedAt = pLastReviewedAt p,
       ReviewCount = pReviewCount p, Notes = pNotes p,
       Tags = map tName (pTags p) \<rparr>"

definition preload_tags :: "repo_state \<Rightarrow> Problem \<Rightarrow> Problem" where
  "preload_tags s p =
     p\<lparr> pTags :=
          concat (map (\<lambda>(pid, tid). if pid = pID p
                                      then filter (\<lambda>t. tID t = tid) (r_tags s)
                                      else [])
                      (r_problem_tags s)) \<rparr>"

text \<open>
  \<open>CreateProblem\<close>. The insert itself, \<open>tx.Create(problem)\<close> with its
  associations, is the ORM's; it is the parameter \<open>create\<close>, which returns an error
  message or the store after the insert with the key it assigned.
\<close>

definition Repository_CreateProblem ::
  "(repo_state \<Rightarrow> Problem \<Rightarrow> string + (repo_state \<times> nat)) \<Rightarrow> repo_state \<Rightarrow> nat ProblemEntry
     \<Rightarrow> repo_state \<times> (nat error + nat ProblemEntry)" where
  "Repository_CreateProblem create s entry =
     (case ValidateProblemEntry entry of
        Some err \<Rightarrow> (s, Inl err)
      | None \<Rightarrow>
          (let problem = ToProblem entry in
           transaction s (\<lambda>tx.
             case create tx problem of
               Inl msg \<Rightarrow> Inl (StoreTransactionError (''failed to create problem: '' @ msg))
             | Inr (tx', newID) \<Rightarrow> Inr (tx', entry\<lparr> ID := newID \<rparr>))))"

text \<open>
  The tag loop of \<open>UpdateProblem\<close>: look the name up, create the tag when it is
  missing, append it to the problem's association (a link that exists is kept as it is).
\<close>

fun attach_tags :: "repo_state \<Rightarrow> nat \<Rightarrow> Tag list \<Rightarrow> repo_state" where
  "attach_tags tx problemID [] = tx"
| "attach_tags tx problemID (tag # rest) =
     (let (tx1, existingTag) =
            (case find (\<lambda>t. tName t = tName tag) (r_tags tx) of
               Some t \<Rightarrow> (tx, t)
             | None \<Rightarrow>
                 (let newID = Suc (fold max (map tID (r_tags tx)) (r_tags_seq tx));
                      created = tag\<lparr> tID := newID \<rparr>
                  in (tx\<lparr> r_tags := r_tags tx @ [created], r_tags_seq := newID \<rparr>, created)));
          tx2 = (if (problemID, tID existingTag) \<in> set (r_problem_tags tx1) then tx1
                 else tx1\<lparr> r_problem_tags :=
                              r_problem_tags tx1 @ [(problemID, tID existingTag)] \<rparr>)
      in attach_tags tx2 problemID rest)"

text \<open>
  \<open>UpdateProblem\<close>: validation, then in one transaction \<open>First\<close> on the key
  (a missing row is \<open>problem not found\<close>), the update of the ten columns, the
  clearing of the association and the tag loop.
\<close>

definition Repository_UpdateProblem ::
  "repo_state \<Rightarrow> nat ProblemEntry \<Rightarrow> repo_state \<times> (nat error + unit)" where
  "Repository_UpdateProblem s entry =
     (case ValidateProblemEntry entry of
        Some err \<Rightarrow> (s, Inl err)
      | None \<Rightarrow>
          (let problem = ToProblem entry in
           transaction s (\<lambda>tx.
             case find (\<lambda>r. pID r = pID problem) (r_problems tx) of
               None \<Rightarrow> Inl (NotFoundError (pID problem))
             | Some existingProblem \<Rightarrow>
                 (let tx1 = tx\<lparr> r_problems :=
                               map (\<lambda>r. if pID r = pID existingProblem
                                        then r\<lparr> pUserID := pUserID problem,
                                                pProblemName := pProblemName problem,
                                                pLink := pLink problem,
                                                pDifficulty := pDifficulty problem,
                                                pCategory := pCategory problem,
                                                pStatus := pStatus problem,
                                                pSolvedAt := pSolvedAt problem,
                                                pLastReviewedAt := pLastReviewedAt problem,
                                                pReviewCount := pReviewCount problem,
                                                pNotes := pNotes problem \<rparr>
                                        else r)
                                   (r_problems tx) \<rparr>;
                      tx2 = tx1\<lparr> r_problem_tags :=
                                   filter (\<lambda>(pid, tid). pid \<noteq> pID existingProblem)
                                          (r_problem_tags tx1) \<rparr>
                  in Inr (attach_tags tx2 (pID existingProblem) (pTags problem), ())))))"

text \<open>
  Queries. \<open>Where\<close> takes a query and its arguments. A query that is SQL text becomes
  a condition on the rows. A query that is neither SQL text nor one of the ORM's own
  values is taken for a value of the primary key and handed to the statement as an
  argument; this is what happens to a Go function. When the statement is run, the
  library converts every argument for the driver and refuses a function.
\<close>

datatype sql_arg = ArgString string | ArgTime time | ArgFunc

datatype condition = UserIDEquals sql_arg | SolvedAtAtMost sql_arg | PrimaryKey sql_arg

fun condition_arg :: "condition \<Rightarrow> sql_arg" where
  "condition_arg (UserIDEquals a) = a"
| "condition_arg (SolvedAtAtMost a) = a"
| "condition_arg (PrimaryKey a) = a"

fun driver_accepts :: "sql_arg \<Rightarrow> bool" where
  "driver_accepts (ArgString x) = True"
| "driver_accepts (ArgTime t) = True"
| "driver_accepts ArgFunc = False"

fun holds :: "condition \<Rightarrow> Problem \<Rightarrow> bool" where
  "holds (UserIDEquals (ArgString u)) p = (pUserID p = u)"
| "holds (SolvedAtAtMost (ArgTime t)) p = (pSolvedAt p \<le> t)"
| "holds c p = False"

text \<open>
  \<open>Find\<close> with \<open>Preload("Tags")\<close> and \<open>Order("solved_at ASC")\<close> over the conditions
  collected by \<open>Where\<close>. (Where it returns rows, those with equal keys are given in
  table order; the engine is free there.)
\<close>

definition Find :: "repo_state \<Rightarrow> condition list \<Rightarrow> string + Problem list" where
  "Find s conds =
     (if list_all (\<lambda>c. driver_accepts (condition_arg c)) conds
      then Inr (map (preload_tags s)
                  (sort_key pSolvedAt
                     (filter (\<lambda>p. list_all (\<lambda>c. holds c p) conds) (r_problems s))))
      else Inl ''sql: converting argument type: unsupported type func(*gorm.DB) *gorm.DB, a func'')"

text \<open>
  \<open>ListProblemsForReview\<close>: three calls of \<open>Where\<close>, the third with a Go function
  (a closure that would add \<open>last_reviewed_at IS NULL OR last_reviewed_at <= ?\<close>; it is
  never called), then \<open>Find\<close> and the conversion of each row.
\<close>

definition Repository_ListProblemsForReview ::
  "repo_state \<Rightarrow> time \<Rightarrow> string \<Rightarrow> duration \<Rightarrow> nat error + nat ProblemEntry list" where
  "Repository_ListProblemsForReview s now userID lookbackPeriod =
     (let cutoff = now - lookbackPeriod
      in case Find s [UserIDEquals (ArgString userID), SolvedAtAtMost (ArgTime cutoff),
                      PrimaryKey ArgFunc] of
           Inl e \<Rightarrow> Inl (StoreTransactionError (''failed to list problems for review: '' @ e))
         | Inr found \<Rightarrow> Inr (map FromProblem found))"

text \<open>
  \<open>IncrementReviewCount\<close>: \<open>Where("id = ?").Updates(...)\<close>; only the statement's
  error is looked at, and a statement that matches no row has none.
\<close>

definition Repository_IncrementReviewCount ::
  "time \<Rightarrow> repo_state \<Rightarrow> nat \<Rightarrow> repo_state \<times> nat error option" where
  "Repository_IncrementReviewCount now s problemID =
     (s\<lparr> r_problems :=
           map (\<lambda>p. if pID p = problemID
                    then p\<lparr> pReviewCount := pReviewCount p + 1,
                            pLastReviewedAt := Some now \<rparr>
                    else p)
               (r_problems s) \<rparr>,
      None)"

text \<open>\<open>ListAllUsers\<close>: the distinct owners, each where it first occurs in the table.\<close>

definition Repository_ListAllUsers :: "repo_state \<Rightarrow> string list" where
  "Repository_ListAllUsers s = rev (remdups (rev (map pUserID (r_problems s))))"

section \<open>The reminder scheduler\<close>

record SchedulerConfig =
  ReviewTime :: string
  ReviewChannel :: string
  RetryAttempts :: int
  RetryDelay :: duration
  LookbackPeriod :: duration

text \<open>
  The chat session is outside the repository. Its two calls are oracles:
  \<open>ChannelMessageSend_ok k\<close> tells whether the \<open>k\<close>-th call of
  \<open>ChannelMessageSend\<close> of the run returns without error, \<open>User_ok u\<close> whether the
  lookup of user \<open>u\<close> does. The text of the message decides nothing and is left out.
\<close>

record session =
  ChannelMessageSend_ok :: "nat \<Rightarrow> bool"
  User_ok :: "string \<Rightarrow> bool"

text \<open>
  What a cycle reads and changes: the repository, the clock (advanced by
  \<open>time.Sleep\<close>; the other steps take no time), the number of send calls made so
  far, and the keys passed to \<open>IncrementReviewCount\<close>, in call order.
\<close>

record world =
  repo :: repo_state
  clock :: time
  sends :: nat
  increments :: "nat list"

text \<open>
  The retry loop \<open>for i := 0; i < RetryAttempts; i++\<close> with \<open>n\<close> iterations left:
  sleep, send again, \<open>break\<close> on success. It only logs; nothing after it looks at
  how it ended.
\<close>

fun retry_send :: "session \<Rightarrow> SchedulerConfig \<Rightarrow> nat \<Rightarrow> world \<Rightarrow> world" where
  "retry_send se cfg 0 w = w"
| "retry_send se cfg (Suc n) w =
     (let w1 = w\<lparr> clock := clock w + RetryDelay cfg \<rparr>;
          ok = ChannelMessageSend_ok se (sends w1);
          w2 = w1\<lparr> sends := Suc (sends w1) \<rparr>
      in if ok then w2 else retry_send se cfg n w2)"

text \<open>The loop over the due problems in the branch of the first send's success.\<close>

fun increment_all :: "world \<Rightarrow> nat ProblemEntry list \<Rightarrow> world" where
  "increment_all w [] = w"
| "increment_all w (p # ps) =
     increment_all
       (w\<lparr> repo := fst (Repository_IncrementReviewCount (clock w) (repo w) (ID p)),
           increments := increments w @ [ID p] \<rparr>)
       ps"

text \<open>
  What \<open>sendDailyReviewReminder\<close> does for one user once it holds the user's list of
  problems (from \<open>if len(problems) > 0\<close> to the end of the loop body).
\<close>

definition notify_user ::
  "session \<Rightarrow> SchedulerConfig \<Rightarrow> world \<Rightarrow> string \<Rightarrow> nat ProblemEntry list \<Rightarrow> world" where
  "notify_user se cfg w userID due =
     (if length due > 0 then
        (if \<not> User_ok se userID then w
         else
           (let ok = ChannelMessageSend_ok se (sends w);
                w1 = w\<lparr> sends := Suc (sends w) \<rparr>
            in if \<not> ok then retry_send se cfg (nat (RetryAttempts cfg)) w1
               else increment_all w1 due))
      else w)"

text \<open>
  The body of the loop over the users, for a repository whose \<open>ListProblemsForReview\<close>
  is \<open>list_for_review\<close>: an error is logged and the loop continues with the next user.
\<close>

type_synonym selector =
  "repo_state \<Rightarrow> time \<Rightarrow> string \<Rightarrow> duration \<Rightarrow> nat error + nat ProblemEntry list"

definition remind_user ::
  "selector \<Rightarrow> session \<Rightarrow> SchedulerConfig \<Rightarrow> world \<Rightarrow> string \<Rightarrow> world" where
  "remind_user list_for_review se cfg w userID =
     (case list_for_review (repo w) (clock w) userID (LookbackPeriod cfg) of
        Inl err \<Rightarrow> w
      | Inr due \<Rightarrow> notify_user se cfg w userID due)"

fun remind_users ::
  "selector \<Rightarrow> session \<Rightarrow> SchedulerConfig \<Rightarrow> world \<Rightarrow> string list \<Rightarrow> world" where
  "remind_users list_for_review se cfg w [] = w"
| "remind_users list_for_review se cfg w (userID # rest) =
     remind_users list_for_review se cfg (remind_user list_for_review se cfg w userID) rest"

definition sendDailyReviewReminder :: "session \<Rightarrow> SchedulerConfig \<Rightarrow> world \<Rightarrow> world" where
  "sendDailyReviewReminder se cfg w =
     (if ReviewChannel cfg = [] then w
      else remind_users Repository_ListProblemsForReview se cfg w
             (Repository_ListAllUsers (repo w)))"

section \<open>Stated properties\<close>

text \<open>
  The entries the specification calls invalid, in its words: a required field (owner,
  name, category) is empty, or the difficulty or the status is outside the enumerated
  values.
\<close>

definition invalid_entry :: "'id ProblemEntry \<Rightarrow> bool" where
  "invalid_entry p =
     (UserID p = [] \<or> ProblemName p = [] \<or> Category p = []
      \<or> Difficulty p \<notin> {DifficultyEasy, DifficultyMedium, DifficultyHard}
      \<or> Status p \<notin> {StatusSolved, StatusNeededHint, StatusStuck})"

section \<open>Concrete stores, entries and sessions\<close>

text \<open>
  Two connections to the same engine: on \<open>sqlite\<close> the cancellation is noticed at
  once, on \<open>sqlite_slow\<close> ten statements of a transaction and the first read of a
  query come before it.
\<close>

definition sqlite :: DB where
  "sqlite = \<lparr> Driver = ''sqlite3'', supports_returning = True, tx_statements = 0,
              rows_readable = False, timestamp_le = (\<le>) \<rparr>"

definition sqlite_slow :: DB where
  "sqlite_slow = sqlite\<lparr> tx_statements := 10, rows_readable := True \<rparr>"

definition empty_db :: db_state where
  "empty_db = \<lparr> problems = [], tags = [], problem_tags = [], user_stats = [],
                problems_seq = 0, tags_seq = 0 \<rparr>"

definition entry_stuck_hard :: "int ProblemEntry" where
  "entry_stuck_hard =
     \<lparr> ID = 0, UserID = ''u1'', ProblemName = ''Edit Distance'', Link = [],
       Difficulty = ''Hard'', Category = ''Strings'', Status = ''Stuck'',
       SolvedAt = 100, LastReviewedAt = None, ReviewCount = 0, Notes = [],
       Tags = [''dp'', ''Dp'', ''  ''] \<rparr>"

definition entry_dup_tags :: "int ProblemEntry" where
  "entry_dup_tags = entry_stuck_hard\<lparr> Tags := [''dp'', '' dp '', ''Dp''] \<rparr>"

definition entry_missing :: "int ProblemEntry" where
  "entry_missing = entry_stuck_hard\<lparr> ID := 42, Tags := [] \<rparr>"

definition entry_stored :: "int ProblemEntry" where
  "entry_stored = entry_stuck_hard\<lparr> ID := 1, Tags := [] \<rparr>"

definition entry_no_owner :: "int ProblemEntry" where
  "entry_no_owner = entry_stuck_hard\<lparr> UserID := [] \<rparr>"

definition row1 :: problem_row where
  "row1 = \<lparr> row_id = 1, row_user_id = ''u1'', row_problem_name = ''Edit Distance'',
            row_link = [], row_difficulty = ''Hard'', row_category = ''Strings'',
            row_status = ''Stuck'', row_solved_at = 100, row_last_reviewed_at = None,
            row_review_count = 0, row_notes = [] \<rparr>"

text \<open>A store with one problem, two tags linked to it, and its owner's statistics.\<close>

definition db_one :: db_state where
  "db_one =
     \<lparr> problems = [row1],
       tags = [\<lparr> tag_id = 1, tag_name = ''dp'' \<rparr>, \<lparr> tag_id = 2, tag_name = ''Dp'' \<rparr>],
       problem_tags = [(1, 1), (1, 2)],
       user_stats = [\<lparr> us_user_id = ''u1'', us_total_solved = 0, us_total_needed_hint = 0,
                       us_total_stuck = 1, us_easy_count = 0, us_medium_count = 0,
                       us_hard_count = 1, us_last_active_at = Some 500 \<rparr>],
       problems_seq = 1, tags_seq = 2 \<rparr>"


definition prob1 :: Problem where
  "prob1 = \<lparr> pID = 1, pUserID = ''u1'', pProblemName = ''Edit Distance'', pLink = [],
             pDifficulty = ''Hard'', pCategory = ''Strings'', pStatus = ''Stuck'',
             pSolvedAt = 100, pLastReviewedAt = None, pReviewCount = 0, pNotes = [],
             pTags = [] \<rparr>"

definition repo_one :: repo_state where
  "repo_one = \<lparr> r_problems = [prob1], r_tags = [\<lparr> tID = 1, tName = ''dp'' \<rparr>],
                r_problem_tags = [(1, 1)], r_tags_seq = 1 \<rparr>"


definition repo_entry_no_owner :: "nat ProblemEntry" where
  "repo_entry_no_owner = (FromProblem prob1)\<lparr> UserID := [] \<rparr>"

definition repo_entry_missing :: "nat ProblemEntry" where
  "repo_entry_missing = (FromProblem prob1)\<lparr> ID := 42 \<rparr>"

definition create_unavailable :: "repo_state \<Rightarrow> Problem \<Rightarrow> string + (repo_state \<times> nat)" where
  "create_unavailable tx problem = Inl ''database is locked''"

definition cfg0 :: SchedulerConfig where
  "cfg0 = \<lparr> ReviewTime = ''08:00'', ReviewChannel = ''reviews'', RetryAttempts = 3,
            RetryDelay = 2, LookbackPeriod = 24 \<rparr>"

definition world0 :: world where
  "world0 = \<lparr> repo = repo_one, clock = 1000, sends = 0, increments = [] \<rparr>"

text \<open>The list a user's turn is entered with: problem 1.\<close>

definition due_one :: "nat ProblemEntry list" where
  "due_one = [FromProblem (preload_tags repo_one prob1)]"

text \<open>A repository whose \<open>ListProblemsForReview\<close> returns the list \<open>due\<close>.\<close>

definition returning :: "nat ProblemEntry list \<Rightarrow> selector" where
  "returning due s now userID lookbackPeriod = Inr due"

text \<open>A session whose first send fails and whose later sends succeed, and one that is down.\<close>

definition session_flaky :: session where
  "session_flaky = \<lparr> ChannelMessageSend_ok = (\<lambda>k. 0 < k), User_ok = (\<lambda>u. True) \<rparr>"

definition session_down :: session where
  "session_down = \<lparr> ChannelMessageSend_ok = (\<lambda>k. False), User_ok = (\<lambda>u. True) \<rparr>"

section \<open>Validation comes first\<close>

lemma validate_invalid:
  "invalid_entry p \<Longrightarrow> \<exists>msg. ValidateProblemEntry p = Some (ValidationError msg)"
  by (auto simp: invalid_entry_def ValidateProblemEntry_def)

lemma validate_valid:
  "\<not> invalid_entry p \<Longrightarrow> ValidateProblemEntry p = None"
  by (auto simp: invalid_entry_def ValidateProblemEntry_def)

text \<open>
  C8. An entry with an empty owner, name or category, or with a difficulty or status
  outside the enumerated values, is rejected by \<open>InsertProblem\<close> and by
  \<open>CreateProblem\<close> with a validation error, and the store after the call is the store
  before it (for \<open>CreateProblem\<close> whatever the ORM's insert would have done).
\<close>

theorem create_rejects_invalid_entry:
  "(invalid_entry p \<longrightarrow>
      (\<exists>msg. DB_InsertProblem db now s p = (s, Inl (ValidationError msg))))
   \<and> (invalid_entry q \<longrightarrow>
      (\<exists>msg. Repository_CreateProblem create rs q = (rs, Inl (ValidationError msg))))"
proof (intro conjI impI)
  assume "invalid_entry p"
  then obtain msg where "ValidateProblemEntry p = Some (ValidationError msg)"
    using validate_invalid by blast
  then show "\<exists>msg. DB_InsertProblem db now s p = (s, Inl (ValidationError msg))"
    by (simp add: DB_InsertProblem_def)
next
  assume "invalid_entry q"
  then obtain msg where "ValidateProblemEntry q = Some (ValidationError msg)"
    using validate_invalid by blast
  then show "\<exists>msg. Repository_CreateProblem create rs q = (rs, Inl (ValidationError msg))"
    by (simp add: Repository_CreateProblem_def)
qed

theorem create_rejects_invalid_entry_witness:
  "invalid_entry entry_no_owner
   \<and> (\<exists>msg. DB_InsertProblem sqlite 500 db_one entry_no_owner
               = (db_one, Inl (ValidationError msg)))
   \<and> invalid_entry repo_entry_no_owner
   \<and> (\<exists>msg. Repository_CreateProblem create_unavailable repo_one repo_entry_no_owner
               = (repo_one, Inl (ValidationError msg)))"
proof -
  have a: "invalid_entry entry_no_owner"
    by (simp add: invalid_entry_def entry_no_owner_def)
  have b: "invalid_entry repo_entry_no_owner"
    by (simp add: invalid_entry_def repo_entry_no_owner_def)
  from a b
    create_rejects_invalid_entry
      [of entry_no_owner sqlite 500 db_one repo_entry_no_owner create_unavailable repo_one]
  show ?thesis by blast
qed

section \<open>Incrementing the review count of a missing problem\<close>

lemma map_if_absent: "\<forall>x \<in> set xs. \<not> P x \<Longrightarrow> map (\<lambda>x. if P x then f x else x) xs = xs"
  by (induction xs) auto

text \<open>
  C10. \<open>IncrementReviewCount\<close> with a key that no stored problem has returns no error
  and leaves the store as it was, in the SQL store and in the repository.
\<close>

theorem increment_missing_id_is_silent:
  "(problemID \<notin> set (map row_id (problems s)) \<longrightarrow>
      DB_IncrementReviewCount now s problemID = (s, None))
   \<and> (k \<notin> set (map pID (r_problems rs)) \<longrightarrow>
      Repository_IncrementReviewCount now rs k = (rs, None))"
proof (intro conjI impI)
  assume "problemID \<notin> set (map row_id (problems s))"
  then have "\<forall>r \<in> set (problems s). \<not> row_id r = problemID" by auto
  then show "DB_IncrementReviewCount now s problemID = (s, None)"
    unfolding DB_IncrementReviewCount_def by (simp add: map_if_absent)
next
  assume "k \<notin> set (map pID (r_problems rs))"
  then have "\<forall>p \<in> set (r_problems rs). \<not> pID p = k" by auto
  then show "Repository_IncrementReviewCount now rs k = (rs, None)"
    unfolding Repository_IncrementReviewCount_def by (simp add: map_if_absent)
qed

theorem increment_missing_id_is_silent_witness:
  "DB_GetProblem db_one 42 = Inl (NotFoundError 42)
   \<and> DB_IncrementReviewCount 1000 db_one 42 = (db_one, None)
   \<and> Repository_IncrementReviewCount 1000 repo_one 42 = (repo_one, None)"
proof -
  have a: "42 \<notin> set (map row_id (problems db_one))"
    by (simp add: db_one_def row1_def)
  have b: "42 \<notin> set (map pID (r_problems repo_one))"
    by (simp add: repo_one_def prob1_def)
  have c: "DB_GetProblem db_one 42 = Inl (NotFoundError 42)"
    by (simp add: DB_GetProblem_def db_one_def row1_def)
  from a b c increment_missing_id_is_silent [of 42 db_one 1000 42 repo_one]
  show ?thesis by blast
qed

section \<open>No transaction of the SQL store commits\<close>

lemma sql_tx_rolls_back:
  "\<exists>msg. sql_tx db s prefix body = (s, Inl (StoreTransactionError msg))"
  by (cases "body (tx_statements db, s)") (auto simp: sql_tx_def)

lemma DB_InsertProblem_valid:
  assumes "ValidateProblemEntry p = None"
  shows "\<exists>msg. DB_InsertProblem db now s p = (s, Inl (StoreTransactionError msg))"
  using assms sql_tx_rolls_back by (simp add: DB_InsertProblem_def)

lemma DB_InsertProblem_store: "fst (DB_InsertProblem db now s p) = s"
proof (cases "ValidateProblemEntry p")
  case None
  from DB_InsertProblem_valid [OF None, of db now s] show ?thesis by auto
next
  case (Some e)
  then show ?thesis by (simp add: DB_InsertProblem_def)
qed

lemma DB_UpdateProblem_valid:
  assumes "ValidateProblemEntry p = None"
  shows "\<exists>msg. DB_UpdateProblem db s p = (s, Inl (StoreTransactionError msg))"
  using assms sql_tx_rolls_back by (simp add: DB_UpdateProblem_def)

lemma DB_UpdateProblem_never_not_found:
  "snd (DB_UpdateProblem db s p) \<noteq> Inl (NotFoundError k)"
proof (cases "ValidateProblemEntry p")
  case None
  from DB_UpdateProblem_valid [OF None, of db s] show ?thesis by auto
next
  case (Some e)
  then have "e \<noteq> NotFoundError k"
    by (auto simp: ValidateProblemEntry_def split: if_splits)
  with Some show ?thesis by (simp add: DB_UpdateProblem_def)
qed

lemma DB_DeleteProblem_fails:
  "\<exists>msg. DB_DeleteProblem db s problemID = (s, Inl (StoreTransactionError msg))"
  using sql_tx_rolls_back by (simp add: DB_DeleteProblem_def)

section \<open>User statistics\<close>

lemma DB_GetUserStats_examples:
  "DB_GetUserStats empty_db ''u1'' = Inr None
   \<and> DB_GetUserStats db_one ''u1''
       = Inl (StoreTransactionError ''failed to parse last_active_at time'')"
  by (simp add: DB_GetUserStats_def empty_db_def db_one_def)

text \<open>
  C2 (the claim: for every valid item \<open>createItem\<close> raises, in the transaction of the
  insert, one status counter and one difficulty counter of the owner's statistics and
  sets \<open>lastActiveAt\<close>; after a create with status Stuck and difficulty Hard,
  \<open>totalStuck\<close> and \<open>hardCount\<close> are one higher). \<open>InsertProblem\<close> with the valid
  Stuck, Hard entry \<open>entry_stuck_hard\<close> on the empty store: on every connection, at
  every time, it returns an error of the store and the store stays empty, so no
  statistics row exists afterwards. When the rollback is noticed at once the first
  statement is refused; when all eight statements still run, among them the three of
  \<open>updateUserStats\<close>, \<open>Commit\<close> returns the error.
\<close>

theorem valid_create_commits_nothing:
  "ValidateProblemEntry entry_stuck_hard = None
   \<and> Status entry_stuck_hard = StatusStuck
   \<and> Difficulty entry_stuck_hard = DifficultyHard
   \<and> user_stats empty_db = []
   \<and> (\<forall>db now. \<exists>msg. DB_InsertProblem db now empty_db entry_stuck_hard
                        = (empty_db, Inl (StoreTransactionError msg)))
   \<and> DB_InsertProblem sqlite 500 empty_db entry_stuck_hard
       = (empty_db, Inl (StoreTransactionError (''failed to insert problem: '' @ ErrTxDone)))
   \<and> DB_InsertProblem sqlite_slow 500 empty_db entry_stuck_hard
       = (empty_db, Inl (StoreTransactionError ''failed to commit transaction: context canceled''))"
proof -
  have v: "ValidateProblemEntry entry_stuck_hard = None"
    by (simp add: ValidateProblemEntry_def entry_stuck_hard_def
        StatusSolved_def StatusNeededHint_def StatusStuck_def
        DifficultyEasy_def DifficultyMedium_def DifficultyHard_def)
  have k: "Status entry_stuck_hard = StatusStuck \<and> Difficulty entry_stuck_hard = DifficultyHard
      \<and> user_stats empty_db = []"
    by (simp add: entry_stuck_hard_def StatusStuck_def DifficultyHard_def empty_db_def)
  have a: "\<forall>db now. \<exists>msg. DB_InsertProblem db now empty_db entry_stuck_hard
                        = (empty_db, Inl (StoreTransactionError msg))"
    using DB_InsertProblem_valid [OF v] by blast
  have b: "DB_InsertProblem sqlite 500 empty_db entry_stuck_hard
       = (empty_db, Inl (StoreTransactionError (''failed to insert problem: '' @ ErrTxDone)))"
    by (simp add: DB_InsertProblem_def ValidateProblemEntry_def sql_tx_def exec_def Commit_def ErrTxDone_def
      insert_problem_def next_rowid_def sqlite_def sqlite_slow_def empty_db_def
      entry_stuck_hard_def entry_dup_tags_def TrimSpace_def asciiSpace_def space2_def space3_def
      upsert_tag_def upsert_returning_def find_tag_def insert_tag_def link_problem_tag_def
      updateUserStats_def stats_exist_def create_stats_def update_stats_def new_user_stats_def
      StatusSolved_def StatusNeededHint_def StatusStuck_def
      DifficultyEasy_def DifficultyMedium_def DifficultyHard_def Let_def eval_nat_numeral)
  have c: "DB_InsertProblem sqlite_slow 500 empty_db entry_stuck_hard
       = (empty_db, Inl (StoreTransactionError ''failed to commit transaction: context canceled''))"
    by (simp add: DB_InsertProblem_def ValidateProblemEntry_def sql_tx_def exec_def Commit_def ErrTxDone_def
      insert_problem_def next_rowid_def sqlite_def sqlite_slow_def empty_db_def
      entry_stuck_hard_def entry_dup_tags_def TrimSpace_def asciiSpace_def space2_def space3_def
      upsert_tag_def upsert_returning_def find_tag_def insert_tag_def link_problem_tag_def
      updateUserStats_def stats_exist_def create_stats_def update_stats_def new_user_stats_def
      StatusSolved_def StatusNeededHint_def StatusStuck_def
      DifficultyEasy_def DifficultyMedium_def DifficultyHard_def Let_def eval_nat_numeral)
  from v k a b c show ?thesis by blast
qed

section \<open>Tags that coincide after trimming\<close>

lemma TrimSpace_examples:
  "TrimSpace '' dp '' = ''dp''
   \<and> TrimSpace [CHR 0xC2, CHR 0xA0, CHR ''d'', CHR ''p'', CHR 0xE3, CHR 0x80, CHR 0x80] = ''dp''
   \<and> TrimSpace [CHR 0x09, CHR 0xE2, CHR 0x80, CHR 0x83, CHR 0xC2, CHR 0x85] = []
   \<and> TrimSpace ''d p'' = ''d p''"
  by (simp add: TrimSpace_def asciiSpace_def space2_def space3_def)

lemma ToProblem_keeps_duplicates:
  "map tName (pTags (ToProblem (e\<lparr> Tags := [''dp'', '' dp '', ''Dp''] \<rparr>))) = [''dp'', ''dp'', ''Dp'']"
  by (simp add: ToProblem_def TrimSpace_def asciiSpace_def space2_def space3_def)

text \<open>
  C5 (the claim: creating a problem with the tags \<open>dp\<close>, \<open> dp \<close>, \<open>Dp\<close> succeeds and
  stores the two tags \<open>dp\<close> and \<open>Dp\<close>). \<open>InsertProblem\<close> on the empty store with
  the valid entry \<open>entry_dup_tags\<close>: on every connection, at every time, it returns an
  error of the store and nothing is stored. When the rollback is noticed at once the
  first statement is refused. When the statements still run, the second tag trims to
  \<open>dp\<close>, the upsert returns the key of the first, and the second link of the same
  pair is refused by the primary key of \<open>problem_tags\<close>.
\<close>

theorem duplicate_trimmed_tags_fail:
  "Tags entry_dup_tags = [''dp'', '' dp '', ''Dp'']
   \<and> ValidateProblemEntry entry_dup_tags = None
   \<and> (\<forall>db now. \<exists>msg. DB_InsertProblem db now empty_db entry_dup_tags
                        = (empty_db, Inl (StoreTransactionError msg)))
   \<and> DB_InsertProblem sqlite 500 empty_db entry_dup_tags
       = (empty_db, Inl (StoreTransactionError (''failed to insert problem: '' @ ErrTxDone)))
   \<and> DB_InsertProblem sqlite_slow 500 empty_db entry_dup_tags
       = (empty_db,
          Inl (StoreTransactionError
                 (''failed to link problem to tag: ''
                  @ ''UNIQUE constraint failed: problem_tags.problem_id, problem_tags.tag_id'')))"
proof -
  have v: "ValidateProblemEntry entry_dup_tags = None"
    by (simp add: ValidateProblemEntry_def entry_dup_tags_def entry_stuck_hard_def
        StatusSolved_def StatusNeededHint_def StatusStuck_def
        DifficultyEasy_def DifficultyMedium_def DifficultyHard_def)
  have k: "Tags entry_dup_tags = [''dp'', '' dp '', ''Dp'']"
    by (simp add: entry_dup_tags_def)
  have a: "\<forall>db now. \<exists>msg. DB_InsertProblem db now empty_db entry_dup_tags
                        = (empty_db, Inl (StoreTransactionError msg))"
    using DB_InsertProblem_valid [OF v] by blast
  have b: "DB_InsertProblem sqlite 500 empty_db entry_dup_tags
       = (empty_db, Inl (StoreTransactionError (''failed to insert problem: '' @ ErrTxDone)))"
    by (simp add: DB_InsertProblem_def ValidateProblemEntry_def sql_tx_def exec_def Commit_def ErrTxDone_def
      insert_problem_def next_rowid_def sqlite_def sqlite_slow_def empty_db_def
      entry_stuck_hard_def entry_dup_tags_def TrimSpace_def asciiSpace_def space2_def space3_def
      upsert_tag_def upsert_returning_def find_tag_def insert_tag_def link_problem_tag_def
      updateUserStats_def stats_exist_def create_stats_def update_stats_def new_user_stats_def
      StatusSolved_def StatusNeededHint_def StatusStuck_def
      DifficultyEasy_def DifficultyMedium_def DifficultyHard_def Let_def eval_nat_numeral)
  have c: "DB_InsertProblem sqlite_slow 500 empty_db entry_dup_tags
       = (empty_db,
          Inl (StoreTransactionError
                 (''failed to link problem to tag: ''
                  @ ''UNIQUE constraint failed: problem_tags.problem_id, problem_tags.tag_id'')))"
    by (simp add: DB_InsertProblem_def ValidateProblemEntry_def sql_tx_def exec_def Commit_def ErrTxDone_def
      insert_problem_def next_rowid_def sqlite_def sqlite_slow_def empty_db_def
      entry_stuck_hard_def entry_dup_tags_def TrimSpace_def asciiSpace_def space2_def space3_def
      upsert_tag_def upsert_returning_def find_tag_def insert_tag_def link_problem_tag_def
      updateUserStats_def stats_exist_def create_stats_def update_stats_def new_user_stats_def
      StatusSolved_def StatusNeededHint_def StatusStuck_def
      DifficultyEasy_def DifficultyMedium_def DifficultyHard_def Let_def eval_nat_numeral)
  from v k a b c show ?thesis by blast
qed

section \<open>Updating a problem that does not exist\<close>

lemma Repository_UpdateProblem_not_found:
  assumes "ValidateProblemEntry e = None" and "ID e \<notin> set (map pID (r_problems rs))"
  shows "Repository_UpdateProblem rs e = (rs, Inl (NotFoundError (ID e)))"
proof -
  have "find (\<lambda>r. pID r = ID e) (r_problems rs) = None"
    using assms(2) by (force simp: find_None_iff)
  with assms(1) show ?thesis
    by (simp add: Repository_UpdateProblem_def transaction_def ToProblem_def Let_def)
qed


lemma Repository_UpdateProblem_example:
  "Repository_UpdateProblem repo_one repo_entry_missing = (repo_one, Inl (NotFoundError 42))"
proof -
  have v: "ValidateProblemEntry repo_entry_missing = None"
    by (simp add: ValidateProblemEntry_def repo_entry_missing_def FromProblem_def prob1_def
        StatusSolved_def StatusNeededHint_def StatusStuck_def
        DifficultyEasy_def DifficultyMedium_def DifficultyHard_def)
  have m: "ID repo_entry_missing \<notin> set (map pID (r_problems repo_one))"
    by (simp add: repo_entry_missing_def repo_one_def prob1_def)
  from Repository_UpdateProblem_not_found [OF v m] show ?thesis
    by (simp add: repo_entry_missing_def)
qed

text \<open>
  C4 (the claim: \<open>updateItem\<close> with a key that is not in the store fails with a
  not-found error and leaves the store unchanged). The store \<open>db_one\<close> has no
  problem 42, as \<open>GetProblem\<close> reports. \<open>UpdateProblem\<close> of the SQL store with the
  valid entry \<open>entry_missing\<close> of key 42 returns, on every connection, an error of
  the store, never the not-found error. Where the statements of the transaction still
  run, the \<open>UPDATE\<close> that matches no row passes, the body reaches \<open>Commit\<close>, and the
  error is the one \<open>Commit\<close> returns for the stored key 1 as well. The lemma
  \<open>DB_UpdateProblem_never_not_found\<close> says that no call returns a not-found error;
  \<open>Repository_UpdateProblem_not_found\<close> shows the repository doing what the claim says.
\<close>

theorem update_missing_id_not_reported:
  "DB_GetProblem db_one 42 = Inl (NotFoundError 42)
   \<and> ID entry_missing = 42
   \<and> ValidateProblemEntry entry_missing = None
   \<and> (\<forall>db. \<exists>msg. DB_UpdateProblem db db_one entry_missing
                    = (db_one, Inl (StoreTransactionError msg)))
   \<and> DB_UpdateProblem sqlite_slow db_one entry_missing
       = (db_one, Inl (StoreTransactionError ''failed to commit transaction: context canceled''))
   \<and> DB_UpdateProblem sqlite_slow db_one entry_stored
       = (db_one, Inl (StoreTransactionError ''failed to commit transaction: context canceled''))"
proof -
  have g: "DB_GetProblem db_one 42 = Inl (NotFoundError 42) \<and> ID entry_missing = 42"
    by (simp add: DB_GetProblem_def db_one_def row1_def entry_missing_def)
  have v: "ValidateProblemEntry entry_missing = None"
    by (simp add: ValidateProblemEntry_def entry_missing_def entry_stuck_hard_def
        StatusSolved_def StatusNeededHint_def StatusStuck_def
        DifficultyEasy_def DifficultyMedium_def DifficultyHard_def)
  have a: "\<forall>db. \<exists>msg. DB_UpdateProblem db db_one entry_missing
                    = (db_one, Inl (StoreTransactionError msg))"
    using DB_UpdateProblem_valid [OF v] by blast
  have b: "DB_UpdateProblem sqlite_slow db_one entry_missing
       = (db_one, Inl (StoreTransactionError ''failed to commit transaction: context canceled''))"
    by (simp add: DB_UpdateProblem_def ValidateProblemEntry_def sql_tx_def exec_def Commit_def
        update_problem_def updateProblemTags_def delete_links_def sqlite_slow_def sqlite_def
        entry_missing_def entry_stuck_hard_def
        StatusSolved_def StatusNeededHint_def StatusStuck_def
        DifficultyEasy_def DifficultyMedium_def DifficultyHard_def eval_nat_numeral)
  have c: "DB_UpdateProblem sqlite_slow db_one entry_stored
       = (db_one, Inl (StoreTransactionError ''failed to commit transaction: context canceled''))"
    by (simp add: DB_UpdateProblem_def ValidateProblemEntry_def sql_tx_def exec_def Commit_def
        update_problem_def updateProblemTags_def delete_links_def sqlite_slow_def sqlite_def
        entry_stored_def entry_stuck_hard_def
        StatusSolved_def StatusNeededHint_def StatusStuck_def
        DifficultyEasy_def DifficultyMedium_def DifficultyHard_def eval_nat_numeral)
  from g v a b c show ?thesis by blast
qed

section \<open>Deleting a problem\<close>

lemma DB_DeleteProblem_user_stats:
  "user_stats (fst (DB_DeleteProblem db s problemID)) = user_stats s"
  using DB_DeleteProblem_fails [of db s problemID] by auto

lemma delete_problem_keeps_links:
  "delete_problem problemID st = Inr (st', u) \<Longrightarrow> problem_tags st' = problem_tags st"
  by (auto simp: delete_problem_def)

text \<open>
  C9 (the claim: deleting a stored item removes the item and its links to tags and
  leaves the owner's statistics, counters and \<open>lastActiveAt\<close>, as they were).
  \<open>DeleteProblem\<close> of problem 1 of \<open>db_one\<close>, which is stored and linked to two
  tags: on every connection it returns an error of the store and the store is as
  before, problem and links included. The statistics are untouched, as for every call
  (\<open>DB_DeleteProblem_user_stats\<close>); the statement of the transaction would have left
  the links in place as well (\<open>delete_problem_keeps_links\<close>).
\<close>

theorem delete_commits_nothing:
  "row1 \<in> set (problems db_one)
   \<and> row_id row1 = 1
   \<and> problem_tags db_one = [(1, 1), (1, 2)]
   \<and> (\<forall>db. \<exists>msg. DB_DeleteProblem db db_one 1 = (db_one, Inl (StoreTransactionError msg)))
   \<and> DB_DeleteProblem sqlite db_one 1
       = (db_one, Inl (StoreTransactionError (''failed to delete problem: '' @ ErrTxDone)))
   \<and> DB_DeleteProblem sqlite_slow db_one 1
       = (db_one, Inl (StoreTransactionError ''context canceled''))"
proof -
  have k: "row1 \<in> set (problems db_one) \<and> row_id row1 = 1
      \<and> problem_tags db_one = [(1, 1), (1, 2)]"
    by (simp add: db_one_def row1_def)
  have a: "\<forall>db. \<exists>msg. DB_DeleteProblem db db_one 1 = (db_one, Inl (StoreTransactionError msg))"
    using DB_DeleteProblem_fails by blast
  have b: "DB_DeleteProblem sqlite db_one 1
       = (db_one, Inl (StoreTransactionError (''failed to delete problem: '' @ ErrTxDone)))"
    by (simp add: DB_DeleteProblem_def sql_tx_def exec_def sqlite_def)
  have c: "DB_DeleteProblem sqlite_slow db_one 1
       = (db_one, Inl (StoreTransactionError ''context canceled''))"
    by (simp add: DB_DeleteProblem_def sql_tx_def exec_def Commit_def delete_problem_def
        sqlite_slow_def sqlite_def eval_nat_numeral)
  from k a b c show ?thesis by blast
qed

section \<open>The problems due for review\<close>

lemma Repository_ListProblemsForReview_fails:
  "\<exists>msg. Repository_ListProblemsForReview s now userID lookbackPeriod
            = Inl (StoreTransactionError msg)"
  by (simp add: Repository_ListProblemsForReview_def Find_def)

lemma DB_ListProblemsForReview_empty:
  "(\<exists>msg. DB_ListProblemsForReview db s now userID lookbackPeriod
             = Inl (StoreTransactionError msg))
   \<or> DB_ListProblemsForReview db s now userID lookbackPeriod = Inr []"
  by (auto simp: DB_ListProblemsForReview_def Let_def split: list.splits)

lemma DB_ListProblemsForReview_selected:
  assumes "r \<in> set (problems s)" and "review_where db userID (now - lookbackPeriod) r"
  shows "\<exists>msg. DB_ListProblemsForReview db s now userID lookbackPeriod
                 = Inl (StoreTransactionError msg)"
proof -
  have "filter (review_where db userID (now - lookbackPeriod)) (problems s) \<noteq> []"
    using assms by (auto simp: filter_empty_conv)
  then show ?thesis
    by (auto simp: DB_ListProblemsForReview_def Let_def split: list.splits)
qed

text \<open>
  C3 (the claim: a stored item of the owner appears in the result of \<open>dueItems\<close> exactly
  when it was solved at or before \<open>now - L\<close> and was never reviewed or last reviewed
  at or before \<open>now - L\<close>). Problem 1 of owner \<open>u1\<close> was solved at 100 and never
  reviewed; at time 1000 with a lookback of 24 it meets the condition. In the SQL store
  \<open>ListProblemsForReview\<close> returns, on every connection, an error or the empty list; on
  the two connections \<open>sqlite\<close> and \<open>sqlite_slow\<close> it is the error of the closed
  rows and the error of the timestamp that does not parse. In the repository
  \<open>ListProblemsForReview\<close> returns an error. The problem is in no result.
\<close>

theorem due_problem_not_listed:
  "row1 \<in> set (problems db_one)
   \<and> row_user_id row1 = ''u1''
   \<and> row_solved_at row1 \<le> 1000 - 24
   \<and> row_last_reviewed_at row1 = None
   \<and> (\<forall>db. (\<exists>msg. DB_ListProblemsForReview db db_one 1000 ''u1'' 24
                     = Inl (StoreTransactionError msg))
            \<or> DB_ListProblemsForReview db db_one 1000 ''u1'' 24 = Inr [])
   \<and> DB_ListProblemsForReview sqlite db_one 1000 ''u1'' 24
       = Inl (StoreTransactionError ''error iterating over review problems: context canceled'')
   \<and> DB_ListProblemsForReview sqlite_slow db_one 1000 ''u1'' 24
       = Inl (StoreTransactionError ''failed to parse solved_at time'')
   \<and> prob1 \<in> set (r_problems repo_one)
   \<and> pUserID prob1 = ''u1''
   \<and> pSolvedAt prob1 \<le> 1000 - 24
   \<and> pLastReviewedAt prob1 = None
   \<and> (\<exists>msg. Repository_ListProblemsForReview repo_one 1000 ''u1'' 24
              = Inl (StoreTransactionError msg))"
proof -
  have a: "row1 \<in> set (problems db_one) \<and> row_user_id row1 = ''u1''
      \<and> row_solved_at row1 \<le> 1000 - 24 \<and> row_last_reviewed_at row1 = None"
    by (simp add: db_one_def row1_def)
  have b: "prob1 \<in> set (r_problems repo_one) \<and> pUserID prob1 = ''u1''
      \<and> pSolvedAt prob1 \<le> 1000 - 24 \<and> pLastReviewedAt prob1 = None"
    by (simp add: repo_one_def prob1_def)
  have c: "\<forall>db. (\<exists>msg. DB_ListProblemsForReview db db_one 1000 ''u1'' 24
                     = Inl (StoreTransactionError msg))
            \<or> DB_ListProblemsForReview db db_one 1000 ''u1'' 24 = Inr []"
    using DB_ListProblemsForReview_empty by blast
  have d: "DB_ListProblemsForReview sqlite db_one 1000 ''u1'' 24
       = Inl (StoreTransactionError ''error iterating over review problems: context canceled'')"
    by (simp add: DB_ListProblemsForReview_def sqlite_def)
  have e: "DB_ListProblemsForReview sqlite_slow db_one 1000 ''u1'' 24
       = Inl (StoreTransactionError ''failed to parse solved_at time'')"
    by (simp add: DB_ListProblemsForReview_def review_where_def sqlite_slow_def sqlite_def
        db_one_def row1_def)
  have f: "\<exists>msg. Repository_ListProblemsForReview repo_one 1000 ''u1'' 24
              = Inl (StoreTransactionError msg)"
    by (rule Repository_ListProblemsForReview_fails)
  from a b c d e f show ?thesis by blast
qed


section \<open>The reminder cycle\<close>

lemma retry_send_frame:
  "repo (retry_send se cfg n w) = repo w \<and> increments (retry_send se cfg n w) = increments w"
  by (induction n arbitrary: w) (simp_all add: Let_def)

lemma retry_send_all_fail:
  "(\<forall>i < n. \<not> ChannelMessageSend_ok se (sends w + i)) \<Longrightarrow>
     retry_send se cfg n w
       = w\<lparr> clock := clock w + int n * RetryDelay cfg, sends := sends w + n \<rparr>"
proof (induction n arbitrary: w)
  case 0
  then show ?case by simp
next
  case (Suc n)
  let ?w2 = "w\<lparr> clock := clock w + RetryDelay cfg, sends := Suc (sends w) \<rparr>"
  from Suc.prems have "\<not> ChannelMessageSend_ok se (sends w + 0)"
    by blast
  then have first: "\<not> ChannelMessageSend_ok se (sends w)"
    by simp
  have "\<forall>i < n. \<not> ChannelMessageSend_ok se (sends ?w2 + i)"
  proof (intro allI impI)
    fix i
    assume "i < n"
    then have "Suc i < Suc n" by simp
    with Suc.prems have "\<not> ChannelMessageSend_ok se (sends w + Suc i)" by blast
    then show "\<not> ChannelMessageSend_ok se (sends ?w2 + i)" by simp
  qed
  then have "retry_send se cfg n ?w2
       = ?w2\<lparr> clock := clock ?w2 + int n * RetryDelay cfg, sends := sends ?w2 + n \<rparr>"
    by (rule Suc.IH)
  with first show ?case by (simp add: Let_def algebra_simps)
qed

text \<open>
  When the first send fails, the user's turn ends with the store and the list of
  increment calls as they were, however the retries go.
\<close>

lemma notify_user_first_send_fails:
  assumes "\<not> ChannelMessageSend_ok se (sends w)"
  shows "repo (notify_user se cfg w u due) = repo w
     \<and> increments (notify_user se cfg w u due) = increments w"
  using assms by (simp add: notify_user_def Let_def retry_send_frame)

text \<open>When the first send succeeds, every problem of the list is passed on, in order.\<close>

lemma increment_all_calls:
  "increments (increment_all w due) = increments w @ map ID due"
  by (induction due arbitrary: w) simp_all

lemma notify_user_first_send_succeeds:
  assumes "due \<noteq> []" and "User_ok se u" and "ChannelMessageSend_ok se (sends w)"
  shows "increments (notify_user se cfg w u due) = increments w @ map ID due"
  using assms by (simp add: notify_user_def Let_def increment_all_calls)

text \<open>
  With the repository as it is, every user's turn ends at the error of
  \<open>ListProblemsForReview\<close>: the cycle sends nothing and changes nothing.
\<close>

lemma remind_users_Repository:
  "remind_users Repository_ListProblemsForReview se cfg w users = w"
proof (induction users)
  case Nil
  then show ?case by simp
next
  case (Cons u rest)
  obtain msg where
    "Repository_ListProblemsForReview (repo w) (clock w) u (LookbackPeriod cfg)
       = Inl (StoreTransactionError msg)"
    using Repository_ListProblemsForReview_fails by blast
  then have "remind_user Repository_ListProblemsForReview se cfg w u = w"
    by (simp add: remind_user_def)
  with Cons show ?case by simp
qed

lemma sendDailyReviewReminder_idle: "sendDailyReviewReminder se cfg w = w"
  by (simp add: sendDailyReviewReminder_def remind_users_Repository)

text \<open>
  C7. A user whose list of problems, as the repository hands it over, is not empty,
  whose lookup succeeds and whose first send and all \<open>RetryAttempts\<close> retries fail: no
  \<open>IncrementReviewCount\<close> call is made, the store is unchanged (so the problems are as
  due as they were), \<open>RetryAttempts + 1\<close> sends were made, and the loop goes on with
  the remaining users.
\<close>

theorem all_attempts_fail_no_increment:
  assumes "list_for_review (repo w) (clock w) u (LookbackPeriod cfg) = Inr due"
    and "due \<noteq> []"
    and "User_ok se u"
    and "\<forall>i \<le> nat (RetryAttempts cfg). \<not> ChannelMessageSend_ok se (sends w + i)"
  shows "increments (remind_user list_for_review se cfg w u) = increments w
     \<and> repo (remind_user list_for_review se cfg w u) = repo w
     \<and> sends (remind_user list_for_review se cfg w u) = sends w + 1 + nat (RetryAttempts cfg)
     \<and> remind_users list_for_review se cfg w (u # rest)
         = remind_users list_for_review se cfg
             (w\<lparr> clock := clock w + int (nat (RetryAttempts cfg)) * RetryDelay cfg,
                 sends := sends w + 1 + nat (RetryAttempts cfg) \<rparr>)
             rest"
proof -
  let ?n = "nat (RetryAttempts cfg)"
  let ?w1 = "w\<lparr> sends := Suc (sends w) \<rparr>"
  from assms(4) have "\<not> ChannelMessageSend_ok se (sends w + 0)"
    by blast
  then have first: "\<not> ChannelMessageSend_ok se (sends w)"
    by simp
  have rest_fail: "\<forall>i < ?n. \<not> ChannelMessageSend_ok se (sends ?w1 + i)"
  proof (intro allI impI)
    fix i
    assume "i < ?n"
    then have "Suc i \<le> ?n" by simp
    with assms(4) have "\<not> ChannelMessageSend_ok se (sends w + Suc i)" by blast
    then show "\<not> ChannelMessageSend_ok se (sends ?w1 + i)" by simp
  qed
  have turn: "remind_user list_for_review se cfg w u = notify_user se cfg w u due"
    using assms(1) by (simp add: remind_user_def)
  have step: "notify_user se cfg w u due = retry_send se cfg ?n ?w1"
    using assms(2,3) first by (simp add: notify_user_def Let_def)
  have ret: "retry_send se cfg ?n ?w1
      = ?w1\<lparr> clock := clock ?w1 + int ?n * RetryDelay cfg, sends := sends ?w1 + ?n \<rparr>"
    using rest_fail by (rule retry_send_all_fail)
  have eq: "remind_user list_for_review se cfg w u
      = w\<lparr> clock := clock w + int ?n * RetryDelay cfg, sends := sends w + 1 + ?n \<rparr>"
    unfolding turn step ret by simp
  have frame: "repo (remind_user list_for_review se cfg w u) = repo w"
      "increments (remind_user list_for_review se cfg w u) = increments w"
    unfolding turn using notify_user_first_send_fails [OF first] by simp_all
  have cnt: "sends (remind_user list_for_review se cfg w u) = sends w + 1 + ?n"
    unfolding eq by simp
  have cont: "remind_users list_for_review se cfg w (u # rest)
         = remind_users list_for_review se cfg
             (w\<lparr> clock := clock w + int ?n * RetryDelay cfg, sends := sends w + 1 + ?n \<rparr>)
             rest"
    by (simp add: eq)
  from frame cnt cont show ?thesis by blast
qed

theorem all_attempts_fail_no_increment_witness:
  "returning due_one (repo world0) (clock world0) ''u1'' (LookbackPeriod cfg0) = Inr due_one
   \<and> map ID due_one = [1]
   \<and> User_ok session_down ''u1''
   \<and> RetryAttempts cfg0 = 3
   \<and> increments (remind_user (returning due_one) session_down cfg0 world0 ''u1'') = []
   \<and> repo (remind_user (returning due_one) session_down cfg0 world0 ''u1'') = repo_one
   \<and> sends (remind_user (returning due_one) session_down cfg0 world0 ''u1'') = 4"
proof -
  have given: "returning due_one (repo world0) (clock world0) ''u1'' (LookbackPeriod cfg0)
      = Inr due_one"
    by (simp add: returning_def)
  have ids: "map ID due_one = [1]"
    by (simp add: due_one_def FromProblem_def preload_tags_def prob1_def)
  then have nonempty: "due_one \<noteq> []"
    by auto
  have ok: "User_ok session_down ''u1''"
    by (simp add: session_down_def)
  have down: "\<forall>i \<le> nat (RetryAttempts cfg0). \<not> ChannelMessageSend_ok session_down (sends world0 + i)"
    by (simp add: session_down_def)
  have cfg: "RetryAttempts cfg0 = 3"
    by (simp add: cfg0_def)
  from all_attempts_fail_no_increment
         [of "returning due_one" world0 "''u1''" cfg0 due_one session_down "[]",
          OF given nonempty ok down]
       given ids ok cfg
  show ?thesis by (simp add: world0_def)
qed

text \<open>
  C1 (the claim: when the first send fails and a retry succeeds, \<open>IncrementReviewCount\<close>
  is called once for each due problem). A user's turn entered with the list of
  problem 1, three retries configured, the first send fails and the second succeeds:
  the turn ends after two sends with no \<open>IncrementReviewCount\<close> call and the store
  unchanged. The loop over the problems sits in the \<open>else\<close> branch of the first
  send's error check (\<open>notify_user_first_send_fails\<close>); after a first send that
  succeeds it is run (\<open>notify_user_first_send_succeeds\<close>).
\<close>

theorem retry_success_skips_increment:
  "map ID due_one = [1]
   \<and> User_ok session_flaky ''u1''
   \<and> \<not> ChannelMessageSend_ok session_flaky 0
   \<and> ChannelMessageSend_ok session_flaky 1
   \<and> RetryAttempts cfg0 = 3
   \<and> sends (notify_user session_flaky cfg0 world0 ''u1'' due_one) = 2
   \<and> increments (notify_user session_flaky cfg0 world0 ''u1'' due_one) = []
   \<and> repo (notify_user session_flaky cfg0 world0 ''u1'' due_one) = repo world0"
  by (simp add: notify_user_def due_one_def FromProblem_def preload_tags_def
      world0_def repo_one_def prob1_def cfg0_def session_flaky_def Let_def eval_nat_numeral)

end
